theory Spec2Isabelle
  imports Complex_Main
begin

section \<open>Decoded JSON values\<close>

text \<open>
  The SDK works on what \<^verbatim>\<open>json.loads\<close> returns: \<^verbatim>\<open>None\<close>, booleans, integers,
  floats, strings, lists and dictionaries. A dictionary is an association list read with
  \<open>map_of\<close>; a decoded dictionary has distinct keys. Floats are carried as rationals: the
  SDK only copies them.
\<close>

datatype json =
    JNull
  | JBool bool
  | JInt int
  | JFloat rat
  | JStr string
  | JList "json list"
  | JObj "(string \<times> json) list"

text \<open>Python truthiness, as used by \<^verbatim>\<open>if details_data\<close> and \<^verbatim>\<open>if body\<close>.\<close>

fun truthy :: "json \<Rightarrow> bool" where
  "truthy JNull = False"
| "truthy (JBool b) = b"
| "truthy (JInt i) = (i \<noteq> 0)"
| "truthy (JFloat r) = (r \<noteq> 0)"
| "truthy (JStr s) = (s \<noteq> [])"
| "truthy (JList xs) = (xs \<noteq> [])"
| "truthy (JObj kvs) = (kvs \<noteq> [])"

text \<open>
  An f-string inserts a string as it is; every other value goes through Python's built-in
  \<^verbatim>\<open>str\<close>, which is taken as the parameter \<open>fmt\<close>.
\<close>

fun py_format :: "(json \<Rightarrow> string) \<Rightarrow> json \<Rightarrow> string" where
  "py_format fmt (JStr s) = s"
| "py_format fmt JNull = fmt JNull"
| "py_format fmt (JBool b) = fmt (JBool b)"
| "py_format fmt (JInt i) = fmt (JInt i)"
| "py_format fmt (JFloat r) = fmt (JFloat r)"
| "py_format fmt (JList xs) = fmt (JList xs)"
| "py_format fmt (JObj kvs) = fmt (JObj kvs)"

section \<open>types.py\<close>

text \<open>
  The dataclasses do not check the types of their fields, so every field holds whatever
  JSON value it was given; an \<^verbatim>\<open>Optional\<close> field left out is \<open>JNull\<close>.
\<close>

record ErrorDetails =
  ed_field :: json
  ed_reason :: json
  ed_provided_type :: json
  ed_requested_voice :: json
  ed_available_voices :: json
  ed_limit :: json
  ed_used :: json
  ed_reset_at :: json
  ed_required_tier :: json
  ed_current_tier :: json
  ed_operation :: json
  ed_memo_id :: json

record MemoVoice =
  mv_id :: json
  mv_name :: json
  mv_gender :: json
  mv_description :: json

record MemoAudio =
  ma_url :: json
  ma_duration :: json
  ma_format :: json

record Memo =
  memo_id :: json
  memo_text :: json
  memo_voice :: MemoVoice
  memo_audio :: MemoAudio
  memo_created_at :: json

record HealthResponse =
  hr_status :: json
  hr_service :: json
  hr_version :: json
  hr_timestamp :: json
  hr_tts_mode :: json
  hr_database :: json

record AgentTalkConfig =
  cfg_api_key :: "string option"
  cfg_base_url :: string
  cfg_timeout :: int

section \<open>errors.py\<close>

record AgentTalkError =
  err_code :: json
  err_message :: json
  err_status_code :: int
  err_details :: "ErrorDetails option"
  err_name :: string

text \<open>
  What a call can raise: the built-in exceptions of Python that the SDK lets through, any
  other exception of the standard library that passes through \<^verbatim>\<open>_request\<close> unchanged
  (\<open>Propagated\<close>, with the name of its class), and the SDK's own \<^verbatim>\<open>AgentTalkError\<close> (with
  its subclasses, told apart by \<open>err_name\<close>).
\<close>

datatype py_exception =
    AttributeError
  | TypeError
  | KeyError string
  | JSONDecodeError
  | Propagated string
  | Raised AgentTalkError

definition py_bind :: "py_exception + 'a \<Rightarrow> ('a \<Rightarrow> py_exception + 'b) \<Rightarrow> py_exception + 'b" where
  "py_bind r f = (case r of Inl ex \<Rightarrow> Inl ex | Inr v \<Rightarrow> f v)"

text \<open>\<^verbatim>\<open>d.get(k, default)\<close>: only a dictionary has the method.\<close>

fun dict_get :: "json \<Rightarrow> string \<Rightarrow> json \<Rightarrow> py_exception + json" where
  "dict_get (JObj kvs) k d = Inr (case map_of kvs k of Some v \<Rightarrow> v | None \<Rightarrow> d)"
| "dict_get JNull k d = Inl AttributeError"
| "dict_get (JBool b) k d = Inl AttributeError"
| "dict_get (JInt i) k d = Inl AttributeError"
| "dict_get (JFloat r) k d = Inl AttributeError"
| "dict_get (JStr s) k d = Inl AttributeError"
| "dict_get (JList xs) k d = Inl AttributeError"

text \<open>\<^verbatim>\<open>d[k]\<close> with a string key.\<close>

fun subscript :: "json \<Rightarrow> string \<Rightarrow> py_exception + json" where
  "subscript (JObj kvs) k = (case map_of kvs k of Some v \<Rightarrow> Inr v | None \<Rightarrow> Inl (KeyError k))"
| "subscript JNull k = Inl TypeError"
| "subscript (JBool b) k = Inl TypeError"
| "subscript (JInt i) k = Inl TypeError"
| "subscript (JFloat r) k = Inl TypeError"
| "subscript (JStr s) k = Inl TypeError"
| "subscript (JList xs) k = Inl TypeError"

definition ErrorDetails_fields :: "string list" where
  "ErrorDetails_fields =
     [''field'', ''reason'', ''provided_type'', ''requested_voice'', ''available_voices'',
      ''limit'', ''used'', ''reset_at'', ''required_tier'', ''current_tier'', ''operation'',
      ''memo_id'']"

definition ErrorDetails_none :: ErrorDetails where
  "ErrorDetails_none =
     \<lparr>ed_field = JNull, ed_reason = JNull, ed_provided_type = JNull,
      ed_requested_voice = JNull, ed_available_voices = JNull, ed_limit = JNull,
      ed_used = JNull, ed_reset_at = JNull, ed_required_tier = JNull,
      ed_current_tier = JNull, ed_operation = JNull, ed_memo_id = JNull\<rparr>"

definition kwarg :: "(string \<times> json) list \<Rightarrow> string \<Rightarrow> json" where
  "kwarg kvs k = (case map_of kvs k of Some v \<Rightarrow> v | None \<Rightarrow> JNull)"

text \<open>
  \<^verbatim>\<open>ErrorDetails(**details_data)\<close>: the argument must be a mapping, and the generated
  \<^verbatim>\<open>__init__\<close> of the dataclass takes its twelve fields and no other keyword.
\<close>

fun ErrorDetails_kwargs :: "json \<Rightarrow> py_exception + ErrorDetails" where
  "ErrorDetails_kwargs (JObj kvs) =
     (if list_all (\<lambda>k. k \<in> set ErrorDetails_fields) (map fst kvs)
      then Inr \<lparr>ed_field = kwarg kvs ''field'', ed_reason = kwarg kvs ''reason'',
                ed_provided_type = kwarg kvs ''provided_type'',
                ed_requested_voice = kwarg kvs ''requested_voice'',
                ed_available_voices = kwarg kvs ''available_voices'',
                ed_limit = kwarg kvs ''limit'', ed_used = kwarg kvs ''used'',
                ed_reset_at = kwarg kvs ''reset_at'',
                ed_required_tier = kwarg kvs ''required_tier'',
                ed_current_tier = kwarg kvs ''current_tier'',
                ed_operation = kwarg kvs ''operation'', ed_memo_id = kwarg kvs ''memo_id''\<rparr>
      else Inl TypeError)"
| "ErrorDetails_kwargs JNull = Inl TypeError"
| "ErrorDetails_kwargs (JBool b) = Inl TypeError"
| "ErrorDetails_kwargs (JInt i) = Inl TypeError"
| "ErrorDetails_kwargs (JFloat r) = Inl TypeError"
| "ErrorDetails_kwargs (JStr s) = Inl TypeError"
| "ErrorDetails_kwargs (JList xs) = Inl TypeError"

subsection \<open>The error classes\<close>

definition AgentTalkError_init ::
    "json \<Rightarrow> json \<Rightarrow> int \<Rightarrow> ErrorDetails option \<Rightarrow> AgentTalkError" where
  "AgentTalkError_init code message status_code details =
     \<lparr>err_code = code, err_message = message, err_status_code = status_code,
      err_details = details, err_name = ''AgentTalkError''\<rparr>"

definition ValidationError :: "json \<Rightarrow> ErrorDetails option \<Rightarrow> AgentTalkError" where
  "ValidationError message details =
     (AgentTalkError_init (JStr ''VALIDATION_ERROR'') message 400 details)
       \<lparr>err_name := ''ValidationError''\<rparr>"

definition InvalidInputError :: "(json \<Rightarrow> string) \<Rightarrow> json \<Rightarrow> json \<Rightarrow> json \<Rightarrow> AgentTalkError" where
  "InvalidInputError fmt field reason provided_type =
     (AgentTalkError_init (JStr ''INVALID_INPUT'')
        (JStr (''Invalid '' @ py_format fmt field @ '': '' @ py_format fmt reason)) 400
        (Some (ErrorDetails_none\<lparr>ed_field := field, ed_reason := reason,
                                 ed_provided_type := provided_type\<rparr>)))
       \<lparr>err_name := ''InvalidInputError''\<rparr>"

definition MissingFieldError :: "(json \<Rightarrow> string) \<Rightarrow> json \<Rightarrow> AgentTalkError" where
  "MissingFieldError fmt field =
     (AgentTalkError_init (JStr ''MISSING_FIELD'')
        (JStr (''Missing required field: '' @ py_format fmt field)) 400
        (Some (ErrorDetails_none\<lparr>ed_field := field\<rparr>)))
       \<lparr>err_name := ''MissingFieldError''\<rparr>"

definition InvalidVoiceError :: "(json \<Rightarrow> string) \<Rightarrow> json \<Rightarrow> json \<Rightarrow> AgentTalkError" where
  "InvalidVoiceError fmt requested_voice available_voices =
     (AgentTalkError_init (JStr ''INVALID_VOICE'')
        (JStr (''Invalid voice: '' @ [CHR 0x22] @ py_format fmt requested_voice @ [CHR 0x22])) 400
        (Some (ErrorDetails_none\<lparr>ed_field := JStr ''voice'',
                                 ed_requested_voice := requested_voice,
                                 ed_available_voices := available_voices\<rparr>)))
       \<lparr>err_name := ''InvalidVoiceError''\<rparr>"

definition UnauthorizedError :: "json \<Rightarrow> AgentTalkError" where
  "UnauthorizedError message =
     (AgentTalkError_init (JStr ''UNAUTHORIZED'') message 401 None)
       \<lparr>err_name := ''UnauthorizedError''\<rparr>"

definition MissingApiKeyError :: AgentTalkError where
  "MissingApiKeyError =
     (AgentTalkError_init (JStr ''MISSING_API_KEY'') (JStr ''API key is required'') 401 None)
       \<lparr>err_name := ''MissingApiKeyError''\<rparr>"

definition InvalidApiKeyError :: AgentTalkError where
  "InvalidApiKeyError =
     (AgentTalkError_init (JStr ''INVALID_API_KEY'') (JStr ''Invalid API key'') 401 None)
       \<lparr>err_name := ''InvalidApiKeyError''\<rparr>"

definition ExpiredTokenError :: AgentTalkError where
  "ExpiredTokenError =
     (AgentTalkError_init (JStr ''EXPIRED_TOKEN'') (JStr ''Token has expired'') 401 None)
       \<lparr>err_name := ''ExpiredTokenError''\<rparr>"

definition ForbiddenError :: "json \<Rightarrow> AgentTalkError" where
  "ForbiddenError message =
     (AgentTalkError_init (JStr ''FORBIDDEN'') message 403 None)
       \<lparr>err_name := ''ForbiddenError''\<rparr>"

definition InsufficientTierError :: "(json \<Rightarrow> string) \<Rightarrow> json \<Rightarrow> json \<Rightarrow> AgentTalkError" where
  "InsufficientTierError fmt required_tier current_tier =
     (AgentTalkError_init (JStr ''INSUFFICIENT_TIER'')
        (JStr (''This feature requires '' @ py_format fmt required_tier @ '' tier'')) 403
        (Some (ErrorDetails_none\<lparr>ed_required_tier := required_tier,
                                 ed_current_tier := current_tier\<rparr>)))
       \<lparr>err_name := ''InsufficientTierError''\<rparr>"

definition RevokedKeyError :: AgentTalkError where
  "RevokedKeyError =
     (AgentTalkError_init (JStr ''REVOKED_KEY'') (JStr ''API key has been revoked'') 403 None)
       \<lparr>err_name := ''RevokedKeyError''\<rparr>"

definition NotFoundError :: "(json \<Rightarrow> string) \<Rightarrow> json \<Rightarrow> AgentTalkError" where
  "NotFoundError fmt resource =
     (AgentTalkError_init (JStr ''NOT_FOUND'')
        (JStr (py_format fmt resource @ '' not found'')) 404 None)
       \<lparr>err_name := ''NotFoundError''\<rparr>"

definition MemoNotFoundError :: "json \<Rightarrow> AgentTalkError" where
  "MemoNotFoundError memo_id_arg =
     (AgentTalkError_init (JStr ''MEMO_NOT_FOUND'') (JStr ''Memo not found'') 404
        (Some (ErrorDetails_none\<lparr>ed_memo_id := memo_id_arg\<rparr>)))
       \<lparr>err_name := ''MemoNotFoundError''\<rparr>"

definition RateLimitError :: "json \<Rightarrow> AgentTalkError" where
  "RateLimitError message =
     (AgentTalkError_init (JStr ''RATE_LIMIT_EXCEEDED'') message 429 None)
       \<lparr>err_name := ''RateLimitError''\<rparr>"

definition DailyLimitExceededError :: "json \<Rightarrow> json \<Rightarrow> json \<Rightarrow> AgentTalkError" where
  "DailyLimitExceededError limit used reset_at =
     (AgentTalkError_init (JStr ''DAILY_LIMIT_EXCEEDED'') (JStr ''Daily rate limit exceeded'') 429
        (Some (ErrorDetails_none\<lparr>ed_limit := limit, ed_used := used, ed_reset_at := reset_at\<rparr>)))
       \<lparr>err_name := ''DailyLimitExceededError''\<rparr>"

definition MonthlyLimitExceededError :: "json \<Rightarrow> json \<Rightarrow> json \<Rightarrow> AgentTalkError" where
  "MonthlyLimitExceededError limit used reset_at =
     (AgentTalkError_init (JStr ''MONTHLY_LIMIT_EXCEEDED'')
        (JStr ''Monthly rate limit exceeded'') 429
        (Some (ErrorDetails_none\<lparr>ed_limit := limit, ed_used := used, ed_reset_at := reset_at\<rparr>)))
       \<lparr>err_name := ''MonthlyLimitExceededError''\<rparr>"

definition InternalError :: "json \<Rightarrow> AgentTalkError" where
  "InternalError message =
     (AgentTalkError_init (JStr ''INTERNAL_ERROR'') message 500 None)
       \<lparr>err_name := ''InternalError''\<rparr>"

definition TTSServiceError :: "json \<Rightarrow> AgentTalkError" where
  "TTSServiceError message =
     (AgentTalkError_init (JStr ''TTS_SERVICE_ERROR'') message 500 None)
       \<lparr>err_name := ''TTSServiceError''\<rparr>"

definition StorageError :: "json \<Rightarrow> AgentTalkError" where
  "StorageError operation =
     (AgentTalkError_init (JStr ''STORAGE_ERROR'') (JStr ''Storage operation failed'') 500
        (Some (ErrorDetails_none\<lparr>ed_operation := operation\<rparr>)))
       \<lparr>err_name := ''StorageError''\<rparr>"

definition NotImplementedError :: "(json \<Rightarrow> string) \<Rightarrow> json \<Rightarrow> AgentTalkError" where
  "NotImplementedError fmt feature =
     (AgentTalkError_init (JStr ''NOT_IMPLEMENTED'')
        (JStr (py_format fmt feature @ '' is not implemented'')) 501 None)
       \<lparr>err_name := ''NotImplementedError''\<rparr>"

definition ServiceUnavailableError :: "json \<Rightarrow> AgentTalkError" where
  "ServiceUnavailableError message =
     (AgentTalkError_init (JStr ''SERVICE_UNAVAILABLE'') message 503 None)
       \<lparr>err_name := ''ServiceUnavailableError''\<rparr>"

subsection \<open>create_error_from_response\<close>

text \<open>
  \<^verbatim>\<open>error_map\<close> is a dictionary of parameterless lambdas; only the one found under
  \<^verbatim>\<open>code\<close> is called. Here each key is paired with what its lambda returns or raises when
  called (a \<^verbatim>\<open>details_data.get\<close> on a value that is no dictionary raises).
\<close>

definition error_map ::
    "(json \<Rightarrow> string) \<Rightarrow> json \<Rightarrow> ErrorDetails option \<Rightarrow> json
       \<Rightarrow> (string \<times> (py_exception + AgentTalkError)) list" where
  "error_map fmt message details details_data =
    [(''VALIDATION_ERROR'', Inr (ValidationError message details)),
     (''INVALID_INPUT'',
        py_bind (dict_get details_data ''field'' (JStr ''unknown'')) (\<lambda>field.
        py_bind (dict_get details_data ''reason'' message) (\<lambda>reason.
        py_bind (dict_get details_data ''provided_type'' JNull) (\<lambda>provided_type.
          Inr (InvalidInputError fmt field reason provided_type))))),
     (''MISSING_FIELD'',
        py_bind (dict_get details_data ''field'' (JStr ''unknown'')) (\<lambda>field.
          Inr (MissingFieldError fmt field))),
     (''INVALID_VOICE'',
        py_bind (dict_get details_data ''requested_voice'' (JStr '''')) (\<lambda>requested_voice.
        py_bind (dict_get details_data ''available_voices'' (JList [])) (\<lambda>available_voices.
          Inr (InvalidVoiceError fmt requested_voice available_voices)))),
     (''UNAUTHORIZED'', Inr (UnauthorizedError message)),
     (''MISSING_API_KEY'', Inr MissingApiKeyError),
     (''INVALID_API_KEY'', Inr InvalidApiKeyError),
     (''EXPIRED_TOKEN'', Inr ExpiredTokenError),
     (''FORBIDDEN'', Inr (ForbiddenError message)),
     (''INSUFFICIENT_TIER'',
        py_bind (dict_get details_data ''required_tier'' (JStr '''')) (\<lambda>required_tier.
        py_bind (dict_get details_data ''current_tier'' (JStr '''')) (\<lambda>current_tier.
          Inr (InsufficientTierError fmt required_tier current_tier)))),
     (''REVOKED_KEY'', Inr RevokedKeyError),
     (''NOT_FOUND'', Inr (NotFoundError fmt message)),
     (''MEMO_NOT_FOUND'',
        py_bind (dict_get details_data ''field'' (JStr '''')) (\<lambda>field.
          Inr (MemoNotFoundError field))),
     (''RATE_LIMIT_EXCEEDED'', Inr (RateLimitError message)),
     (''DAILY_LIMIT_EXCEEDED'',
        py_bind (dict_get details_data ''limit'' (JInt 0)) (\<lambda>limit.
        py_bind (dict_get details_data ''used'' (JInt 0)) (\<lambda>used.
        py_bind (dict_get details_data ''reset_at'' (JStr '''')) (\<lambda>reset_at.
          Inr (DailyLimitExceededError limit used reset_at))))),
     (''MONTHLY_LIMIT_EXCEEDED'',
        py_bind (dict_get details_data ''limit'' (JInt 0)) (\<lambda>limit.
        py_bind (dict_get details_data ''used'' (JInt 0)) (\<lambda>used.
        py_bind (dict_get details_data ''reset_at'' (JStr '''')) (\<lambda>reset_at.
          Inr (MonthlyLimitExceededError limit used reset_at))))),
     (''INTERNAL_ERROR'', Inr (InternalError message)),
     (''TTS_SERVICE_ERROR'', Inr (TTSServiceError message)),
     (''STORAGE_ERROR'',
        py_bind (dict_get details_data ''operation'' (JStr ''unknown'')) (\<lambda>operation.
          Inr (StorageError operation))),
     (''NOT_IMPLEMENTED'', Inr (NotImplementedError fmt message)),
     (''SERVICE_UNAVAILABLE'', Inr (ServiceUnavailableError message))]"

text \<open>
  \<^verbatim>\<open>error_map.get(code)\<close>: the keys are strings, so a code of another hashable type is
  not found; a list or a dictionary is unhashable and the lookup raises.
\<close>

fun error_map_get ::
    "(string \<times> (py_exception + AgentTalkError)) list \<Rightarrow> json
       \<Rightarrow> py_exception + (py_exception + AgentTalkError) option" where
  "error_map_get m (JStr c) = Inr (map_of m c)"
| "error_map_get m JNull = Inr None"
| "error_map_get m (JBool b) = Inr None"
| "error_map_get m (JInt i) = Inr None"
| "error_map_get m (JFloat r) = Inr None"
| "error_map_get m (JList xs) = Inl TypeError"
| "error_map_get m (JObj kvs) = Inl TypeError"

definition create_error_from_response ::
    "(json \<Rightarrow> string) \<Rightarrow> int \<Rightarrow> json \<Rightarrow> py_exception + AgentTalkError" where
  "create_error_from_response fmt status_code error_response =
     py_bind (dict_get error_response ''error'' (JObj [])) (\<lambda>error_data.
     py_bind (dict_get error_data ''code'' (JStr ''INTERNAL_ERROR'')) (\<lambda>code.
     py_bind (dict_get error_data ''message'' (JStr ''Unknown error'')) (\<lambda>message.
     py_bind (dict_get error_data ''details'' (JObj [])) (\<lambda>details_data.
     py_bind (if truthy details_data
              then py_bind (ErrorDetails_kwargs details_data) (\<lambda>d. Inr (Some d))
              else Inr None) (\<lambda>details.
     py_bind (error_map_get (error_map fmt message details details_data) code) (\<lambda>error_factory.
       case error_factory of
         Some produced \<Rightarrow> produced
       | None \<Rightarrow> Inr (AgentTalkError_init code message status_code details)))))))"

section \<open>client.py\<close>

definition DEFAULT_BASE_URL :: string where
  "DEFAULT_BASE_URL = ''https://talk.onhyper.io''"

definition DEFAULT_TIMEOUT :: int where
  "DEFAULT_TIMEOUT = 30"

record HttpClient =
  hc_base_url :: string
  hc_api_key :: "string option"
  hc_timeout :: int

text \<open>\<^verbatim>\<open>AgentTalkConfig()\<close> with the defaults of the dataclass.\<close>

definition AgentTalkConfig_default :: AgentTalkConfig where
  "AgentTalkConfig_default =
     \<lparr>cfg_api_key = None, cfg_base_url = ''https://talk.onhyper.io'', cfg_timeout = 30000\<rparr>"

definition HttpClient_init :: "AgentTalkConfig option \<Rightarrow> HttpClient" where
  "HttpClient_init config_arg =
     (let config = (case config_arg of None \<Rightarrow> AgentTalkConfig_default | Some c \<Rightarrow> c) in
      \<lparr>hc_base_url = (if cfg_base_url config \<noteq> [] then cfg_base_url config else DEFAULT_BASE_URL),
       hc_api_key = cfg_api_key config,
       hc_timeout = (if cfg_timeout config \<noteq> 0 then cfg_timeout config div 1000
                     else DEFAULT_TIMEOUT)\<rparr>)"

text \<open>
  The request handed to \<^verbatim>\<open>urllib.request.urlopen\<close>, and what the body of the
  \<^verbatim>\<open>try\<close> statement of \<^verbatim>\<open>_request\<close> (the call, then reading and decoding the response)
  does: it yields the body of a response, or raises \<^verbatim>\<open>HTTPError\<close> (status, reason, body),
  \<^verbatim>\<open>URLError\<close> (reason), \<^verbatim>\<open>TimeoutError\<close>, or any other exception (the name of its
  class). \<^verbatim>\<open>urllib\<close> wraps in \<^verbatim>\<open>URLError\<close> only what fails while the request is sent;
  what fails while the response is awaited or read, such as
  \<^verbatim>\<open>http.client.RemoteDisconnected\<close>, \<^verbatim>\<open>ConnectionResetError\<close> or
  \<^verbatim>\<open>http.client.IncompleteRead\<close>, is raised as it is.
\<close>

record Request =
  rq_url :: string
  rq_data :: "string option"
  rq_headers :: "(string \<times> string) list"
  rq_method :: string

datatype urlopen_outcome =
    Response string
  | HTTPError int string string
  | URLError string
  | TimeoutError
  | OtherException string

text \<open>Lines 54 to 74 of \<^verbatim>\<open>_request\<close>: the URL, the headers, the data, the request object.\<close>

definition build_request ::
    "(json \<Rightarrow> string) \<Rightarrow> HttpClient \<Rightarrow> string \<Rightarrow> string \<Rightarrow> json option \<Rightarrow> bool \<Rightarrow> Request" where
  "build_request json_dumps self method path body auth =
     \<lparr>rq_url = hc_base_url self @ path,
      rq_data = (case body of
                   None \<Rightarrow> None
                 | Some b \<Rightarrow> if truthy b then Some (json_dumps b) else None),
      rq_headers =
        [(''Content-Type'', ''application/json''), (''Accept'', ''application/json'')] @
        (case hc_api_key self of
           None \<Rightarrow> []
         | Some k \<Rightarrow> if auth \<and> k \<noteq> [] then [(''Authorization'', ''Bearer '' @ k)] else []),
      rq_method = method\<rparr>"

text \<open>
  \<^verbatim>\<open>_request\<close>. The standard library is taken as parameters: \<open>json_loads\<close> (\<open>None\<close>
  when it raises \<^verbatim>\<open>JSONDecodeError\<close>), \<open>json_dumps\<close>, \<open>fmt\<close> and \<open>urlopen\<close>. The first
  component of the result lists the requests handed to \<open>urlopen\<close>. The three handlers are
  for \<^verbatim>\<open>HTTPError\<close>, \<^verbatim>\<open>URLError\<close> and \<^verbatim>\<open>TimeoutError\<close>; any other exception leaves the
  function as it was raised.
\<close>

definition HttpClient_request ::
    "(string \<Rightarrow> json option) \<Rightarrow> (json \<Rightarrow> string) \<Rightarrow> (json \<Rightarrow> string)
       \<Rightarrow> (Request \<Rightarrow> int \<Rightarrow> urlopen_outcome)
       \<Rightarrow> HttpClient \<Rightarrow> string \<Rightarrow> string \<Rightarrow> json option \<Rightarrow> bool
       \<Rightarrow> Request list \<times> (py_exception + json)" where
  "HttpClient_request json_loads json_dumps fmt urlopen self method path body auth =
     (let request = build_request json_dumps self method path body auth in
      ([request],
       case urlopen request (hc_timeout self) of
         Response response_body \<Rightarrow>
           if response_body = [] then Inr (JObj [])
           else (case json_loads response_body of
                   Some v \<Rightarrow> Inr v
                 | None \<Rightarrow> Inl JSONDecodeError)
       | HTTPError code reason response_body \<Rightarrow>
           (case json_loads response_body of
              Some error_response \<Rightarrow>
                (case create_error_from_response fmt code error_response of
                   Inl ex \<Rightarrow> Inl ex
                 | Inr err \<Rightarrow> Inl (Raised err))
            | None \<Rightarrow>
                Inl (Raised (AgentTalkError_init (JStr ''INTERNAL_ERROR'')
                       (JStr (''HTTP '' @ fmt (JInt code) @ '': '' @ reason)) code None)))
       | URLError reason \<Rightarrow>
           Inl (Raised (AgentTalkError_init (JStr ''SERVICE_UNAVAILABLE'')
                  (JStr (''Network error: Unable to connect to Agent Talk API: '' @ reason))
                  503 None))
       | TimeoutError \<Rightarrow>
           Inl (Raised (AgentTalkError_init (JStr ''SERVICE_UNAVAILABLE'')
                  (JStr ''Request timeout'') 408 None))
       | OtherException cls \<Rightarrow> Inl (Propagated cls)))"

definition HttpClient_get ::
    "(string \<Rightarrow> json option) \<Rightarrow> (json \<Rightarrow> string) \<Rightarrow> (json \<Rightarrow> string)
       \<Rightarrow> (Request \<Rightarrow> int \<Rightarrow> urlopen_outcome)
       \<Rightarrow> HttpClient \<Rightarrow> string \<Rightarrow> bool \<Rightarrow> Request list \<times> (py_exception + json)" where
  "HttpClient_get json_loads json_dumps fmt urlopen self path auth =
     HttpClient_request json_loads json_dumps fmt urlopen self ''GET'' path None auth"

definition HttpClient_post ::
    "(string \<Rightarrow> json option) \<Rightarrow> (json \<Rightarrow> string) \<Rightarrow> (json \<Rightarrow> string)
       \<Rightarrow> (Request \<Rightarrow> int \<Rightarrow> urlopen_outcome)
       \<Rightarrow> HttpClient \<Rightarrow> string \<Rightarrow> json option \<Rightarrow> bool
       \<Rightarrow> Request list \<times> (py_exception + json)" where
  "HttpClient_post json_loads json_dumps fmt urlopen self path body auth =
     HttpClient_request json_loads json_dumps fmt urlopen self ''POST'' path body auth"

text \<open>\<^verbatim>\<open>response[k1][k2]\<close>.\<close>

definition subscript2 :: "json \<Rightarrow> string \<Rightarrow> string \<Rightarrow> py_exception + json" where
  "subscript2 response k1 k2 = py_bind (subscript response k1) (\<lambda>inner. subscript inner k2)"

text \<open>
  The \<^verbatim>\<open>Memo(...)\<close> expression that ends \<^verbatim>\<open>MemoApi.create\<close> and \<^verbatim>\<open>MemoApi.demo\<close>; the
  keyword arguments are evaluated from left to right.
\<close>

definition Memo_from_response :: "json \<Rightarrow> py_exception + Memo" where
  "Memo_from_response response =
     py_bind (subscript response ''id'') (\<lambda>id_v.
     py_bind (subscript response ''text'') (\<lambda>text_v.
     py_bind (subscript2 response ''voice'' ''id'') (\<lambda>voice_id.
     py_bind (subscript2 response ''voice'' ''name'') (\<lambda>voice_name.
     py_bind (subscript2 response ''voice'' ''gender'') (\<lambda>voice_gender.
     py_bind (subscript2 response ''voice'' ''description'') (\<lambda>voice_description.
     py_bind (subscript2 response ''audio'' ''url'') (\<lambda>audio_url.
     py_bind (subscript2 response ''audio'' ''duration'') (\<lambda>audio_duration.
     py_bind (subscript2 response ''audio'' ''format'') (\<lambda>audio_format.
     py_bind (subscript response ''createdAt'') (\<lambda>created_at.
       Inr \<lparr>memo_id = id_v, memo_text = text_v,
            memo_voice = \<lparr>mv_id = voice_id, mv_name = voice_name, mv_gender = voice_gender,
                           mv_description = voice_description\<rparr>,
            memo_audio = \<lparr>ma_url = audio_url, ma_duration = audio_duration,
                           ma_format = audio_format\<rparr>,
            memo_created_at = created_at\<rparr>))))))))))"

definition MemoApi_create ::
    "(string \<Rightarrow> json option) \<Rightarrow> (json \<Rightarrow> string) \<Rightarrow> (json \<Rightarrow> string)
       \<Rightarrow> (Request \<Rightarrow> int \<Rightarrow> urlopen_outcome)
       \<Rightarrow> HttpClient \<Rightarrow> string \<Rightarrow> string \<Rightarrow> Request list \<times> (py_exception + Memo)" where
  "MemoApi_create json_loads json_dumps fmt urlopen client text voice =
     (case HttpClient_post json_loads json_dumps fmt urlopen client ''/api/v1/memo''
             (Some (JObj [(''text'', JStr text), (''voice'', JStr voice)])) True of
        (calls, Inl ex) \<Rightarrow> (calls, Inl ex)
      | (calls, Inr response) \<Rightarrow> (calls, Memo_from_response response))"

definition MemoApi_demo ::
    "(string \<Rightarrow> json option) \<Rightarrow> (json \<Rightarrow> string) \<Rightarrow> (json \<Rightarrow> string)
       \<Rightarrow> (Request \<Rightarrow> int \<Rightarrow> urlopen_outcome)
       \<Rightarrow> HttpClient \<Rightarrow> string \<Rightarrow> string \<Rightarrow> Request list \<times> (py_exception + Memo)" where
  "MemoApi_demo json_loads json_dumps fmt urlopen client text voice =
     (case HttpClient_post json_loads json_dumps fmt urlopen client ''/api/v1/demo''
             (Some (JObj [(''text'', JStr text), (''voice'', JStr voice)])) False of
        (calls, Inl ex) \<Rightarrow> (calls, Inl ex)
      | (calls, Inr response) \<Rightarrow> (calls, Memo_from_response response))"

text \<open>
  \<^verbatim>\<open>AgentTalk.__init__\<close>: the facade holds one \<^verbatim>\<open>HttpClient\<close>, shared by its
  \<^verbatim>\<open>memo\<close> and \<^verbatim>\<open>voices\<close> groups.
\<close>

definition AgentTalk_init :: "string option \<Rightarrow> string option \<Rightarrow> int option \<Rightarrow> HttpClient" where
  "AgentTalk_init api_key base_url timeout =
     HttpClient_init (Some
       \<lparr>cfg_api_key = api_key,
        cfg_base_url = (case base_url of
                          None \<Rightarrow> DEFAULT_BASE_URL
                        | Some b \<Rightarrow> if b \<noteq> [] then b else DEFAULT_BASE_URL),
        cfg_timeout = (case timeout of
                         None \<Rightarrow> 30000
                       | Some t \<Rightarrow> if t \<noteq> 0 then t else 30000)\<rparr>)"

text \<open>The \<^verbatim>\<open>HealthResponse(...)\<close> expression that ends \<^verbatim>\<open>AgentTalk.health\<close>.\<close>

definition HealthResponse_from_response :: "json \<Rightarrow> py_exception + HealthResponse" where
  "HealthResponse_from_response response =
     py_bind (subscript response ''status'') (\<lambda>status.
     py_bind (subscript response ''service'') (\<lambda>service.
     py_bind (subscript response ''version'') (\<lambda>version.
     py_bind (subscript response ''timestamp'') (\<lambda>timestamp.
     py_bind (subscript response ''ttsMode'') (\<lambda>tts_mode.
     py_bind (subscript response ''database'') (\<lambda>database.
       Inr \<lparr>hr_status = status, hr_service = service, hr_version = version,
            hr_timestamp = timestamp, hr_tts_mode = tts_mode, hr_database = database\<rparr>))))))"

definition AgentTalk_health ::
    "(string \<Rightarrow> json option) \<Rightarrow> (json \<Rightarrow> string) \<Rightarrow> (json \<Rightarrow> string)
       \<Rightarrow> (Request \<Rightarrow> int \<Rightarrow> urlopen_outcome)
       \<Rightarrow> HttpClient \<Rightarrow> Request list \<times> (py_exception + HealthResponse)" where
  "AgentTalk_health json_loads json_dumps fmt urlopen client =
     (case HttpClient_get json_loads json_dumps fmt urlopen client ''/health'' False of
        (calls, Inl ex) \<Rightarrow> (calls, Inl ex)
      | (calls, Inr response) \<Rightarrow> (calls, HealthResponse_from_response response))"

section \<open>The taxonomy of the specification\<close>

text \<open>
  The table of section 4.1 of the specification: each wire code with its declared default
  HTTP status. It is what the error classes above are compared with.
\<close>

definition taxonomy :: "(string \<times> int) list" where
  "taxonomy =
    [(''VALIDATION_ERROR'', 400), (''INVALID_INPUT'', 400), (''MISSING_FIELD'', 400),
     (''INVALID_VOICE'', 400), (''UNAUTHORIZED'', 401), (''MISSING_API_KEY'', 401),
     (''INVALID_API_KEY'', 401), (''EXPIRED_TOKEN'', 401), (''FORBIDDEN'', 403),
     (''INSUFFICIENT_TIER'', 403), (''REVOKED_KEY'', 403), (''NOT_FOUND'', 404),
     (''MEMO_NOT_FOUND'', 404), (''RATE_LIMIT_EXCEEDED'', 429),
     (''DAILY_LIMIT_EXCEEDED'', 429), (''MONTHLY_LIMIT_EXCEEDED'', 429),
     (''INTERNAL_ERROR'', 500), (''TTS_SERVICE_ERROR'', 500), (''STORAGE_ERROR'', 500),
     (''NOT_IMPLEMENTED'', 501), (''SERVICE_UNAVAILABLE'', 503)]"

text \<open>
  The wire code of an error response, as the first two statements of
  \<^verbatim>\<open>create_error_from_response\<close> read it.
\<close>

definition response_code :: "json \<Rightarrow> py_exception + json" where
  "response_code error_response =
     py_bind (dict_get error_response ''error'' (JObj [])) (\<lambda>error_data.
       dict_get error_data ''code'' (JStr ''INTERNAL_ERROR''))"

text \<open>The error envelope \<^verbatim>\<open>{"error": {"code": ..., "message": ..., "details": ...}}\<close>.\<close>

definition envelope :: "json \<Rightarrow> json \<Rightarrow> json \<Rightarrow> json" where
  "envelope code message details =
     JObj [(''error'', JObj [(''code'', code), (''message'', message), (''details'', details)])]"

section \<open>Predicates and fixtures of the properties\<close>

text \<open>
  The required fields of section 4.3 of the specification, as paths into the response, in
  the order in which the mappers read them.
\<close>

definition memo_required :: "string list list" where
  "memo_required =
     [[''id''], [''text''], [''voice'', ''id''], [''voice'', ''name''], [''voice'', ''gender''],
      [''voice'', ''description''], [''audio'', ''url''], [''audio'', ''duration''],
      [''audio'', ''format''], [''createdAt'']]"

definition health_required :: "string list list" where
  "health_required =
     [[''status''], [''service''], [''version''], [''timestamp''], [''ttsMode''],
      [''database'']]"

text \<open>
  Why a path cannot be read in a value, if it cannot: at the first key that the enclosing
  dictionary lacks, the \<^verbatim>\<open>KeyError\<close> that names this key; at the first enclosing value that
  is no dictionary (\<^verbatim>\<open>null\<close>, a string, a list and so on), a \<^verbatim>\<open>TypeError\<close>.
\<close>

fun unreadable :: "json \<Rightarrow> string list \<Rightarrow> py_exception option" where
  "unreadable r [] = None"
| "unreadable (JObj kvs) (k # ks) =
     (case map_of kvs k of None \<Rightarrow> Some (KeyError k) | Some v \<Rightarrow> unreadable v ks)"
| "unreadable JNull (k # ks) = Some TypeError"
| "unreadable (JBool b) (k # ks) = Some TypeError"
| "unreadable (JInt i) (k # ks) = Some TypeError"
| "unreadable (JFloat q) (k # ks) = Some TypeError"
| "unreadable (JStr s) (k # ks) = Some TypeError"
| "unreadable (JList xs) (k # ks) = Some TypeError"

text \<open>The exception of the first path of a list that cannot be read.\<close>

fun first_unreadable :: "json \<Rightarrow> string list list \<Rightarrow> py_exception option" where
  "first_unreadable r [] = None"
| "first_unreadable r (p # ps) =
     (case unreadable r p of Some ex \<Rightarrow> Some ex | None \<Rightarrow> first_unreadable r ps)"

text \<open>A required field is absent from a response: one of the paths cannot be read.\<close>

definition memo_field_absent :: "json \<Rightarrow> bool" where
  "memo_field_absent r = list_ex (\<lambda>p. unreadable r p \<noteq> None) memo_required"

definition health_field_absent :: "json \<Rightarrow> bool" where
  "health_field_absent r = list_ex (\<lambda>p. unreadable r p \<noteq> None) health_required"

text \<open>The built-in exceptions a failed \<^verbatim>\<open>d[k]\<close> raises; none is an \<^verbatim>\<open>AgentTalkError\<close>.\<close>

definition lookup_error :: "py_exception \<Rightarrow> bool" where
  "lookup_error ex = (case ex of TypeError \<Rightarrow> True | KeyError k \<Rightarrow> True | _ \<Rightarrow> False)"

text \<open>The memo-creation response of section 8 of the specification, decoded.\<close>

definition memo_response_example :: json where
  "memo_response_example =
     JObj [(''id'', JStr ''m1''), (''text'', JStr ''hi''),
           (''voice'', JObj [(''id'', JStr ''rachel''), (''name'', JStr ''Rachel''),
                             (''gender'', JStr ''female''), (''description'', JStr ''Calm'')]),
           (''audio'', JObj [(''url'', JStr ''https://x/a.mp3''), (''duration'', JFloat (3 / 2)),
                             (''format'', JStr ''mp3'')]),
           (''createdAt'', JStr ''2024-01-01T00:00:00Z'')]"


text \<open>
  What an entry of \<^verbatim>\<open>error_map\<close> under key \<open>k\<close> does when called, against the status
  \<open>st\<close> that the taxonomy declares for \<open>k\<close>: it returns an error of that code and status, or
  its \<^verbatim>\<open>details_data.get\<close> raises.
\<close>

definition entry_ok :: "string \<Rightarrow> int \<Rightarrow> py_exception + AgentTalkError \<Rightarrow> bool" where
  "entry_ok k st p =
     (case p of
        Inl ex \<Rightarrow> ex = AttributeError
      | Inr e \<Rightarrow> err_code e = JStr k \<and> err_status_code e = st)"

text \<open>
  Stubs for the standard library, for running the client on concrete inputs: a decoder
  that returns one fixed value, a decoder that rejects every body, an encoder, a formatter,
  and a transport with one fixed outcome.
\<close>

definition stub_loads :: "json \<Rightarrow> string \<Rightarrow> json option" where
  "stub_loads j s = Some j"

definition stub_no_json :: "string \<Rightarrow> json option" where
  "stub_no_json s = None"

definition stub_dumps :: "json \<Rightarrow> string" where
  "stub_dumps j = ''{}''"

definition stub_fmt :: "json \<Rightarrow> string" where
  "stub_fmt j = ''?''"

definition stub_urlopen :: "urlopen_outcome \<Rightarrow> Request \<Rightarrow> int \<Rightarrow> urlopen_outcome" where
  "stub_urlopen out rq t = out"

section \<open>Basic facts\<close>

lemmas class_defs =
  AgentTalkError_init_def ValidationError_def InvalidInputError_def MissingFieldError_def
  InvalidVoiceError_def UnauthorizedError_def MissingApiKeyError_def InvalidApiKeyError_def
  ExpiredTokenError_def ForbiddenError_def InsufficientTierError_def RevokedKeyError_def
  NotFoundError_def MemoNotFoundError_def RateLimitError_def DailyLimitExceededError_def
  MonthlyLimitExceededError_def InternalError_def TTSServiceError_def StorageError_def
  NotImplementedError_def ServiceUnavailableError_def

lemmas stub_defs =
  stub_loads_def stub_no_json_def stub_dumps_def stub_fmt_def stub_urlopen_def

lemma py_bind_Inl: "py_bind (Inl ex) f = Inl ex"
  by (simp add: py_bind_def)

lemma py_bind_Inr: "py_bind (Inr v) f = f v"
  by (simp add: py_bind_def)

lemma py_bind_cong: "(\<And>v. r = Inr v \<Longrightarrow> f v = g v) \<Longrightarrow> py_bind r f = py_bind r g"
  by (cases r) (simp_all add: py_bind_def)

lemma py_bind_InlD: "py_bind r f = Inl ex \<Longrightarrow> r = Inl ex \<or> (\<exists>v. r = Inr v \<and> f v = Inl ex)"
  by (cases r) (simp_all add: py_bind_def)

lemma py_bind_InrD: "py_bind r f = Inr y \<Longrightarrow> \<exists>v. r = Inr v \<and> f v = Inr y"
  by (cases r) (simp_all add: py_bind_def)


lemma subscript_unreadable:
  "unreadable r [k] = (case subscript r k of Inl ex \<Rightarrow> Some ex | Inr v \<Rightarrow> None)"
  by (cases r) (simp_all split: option.splits)

lemma subscript2_unreadable:
  "unreadable r [k1, k2] = (case subscript2 r k1 k2 of Inl ex \<Rightarrow> Some ex | Inr v \<Rightarrow> None)"
proof (cases r)
  case (JObj kvs)
  show ?thesis
  proof (cases "map_of kvs k1")
    case None
    with JObj show ?thesis by (simp add: subscript2_def py_bind_def)
  next
    case (Some v)
    with JObj subscript_unreadable[of v k2] show ?thesis
      by (simp add: subscript2_def py_bind_def)
  qed
qed (simp_all add: subscript2_def py_bind_def)

lemma unreadable_lookup_error: "unreadable r p = Some ex \<Longrightarrow> lookup_error ex"
  by (induction r p rule: unreadable.induct) (auto simp: lookup_error_def split: option.splits)

lemma first_unreadable_lookup_error: "first_unreadable r ps = Some ex \<Longrightarrow> lookup_error ex"
  by (induction ps) (auto split: option.splits dest: unreadable_lookup_error)

lemma absent_first_unreadable:
  "list_ex (\<lambda>p. unreadable r p \<noteq> None) ps \<Longrightarrow> \<exists>ex. first_unreadable r ps = Some ex"
  by (induction ps) (auto split: option.splits)

subsection \<open>The keys of error_map are the codes of the taxonomy\<close>

lemma error_map_keys: "map fst (error_map fmt m d dd) = map fst taxonomy"
  by (simp add: error_map_def taxonomy_def)

lemma error_map_found:
  assumes "c \<in> set (map fst taxonomy)"
  shows "\<exists>p. map_of (error_map fmt m d dd) c = Some p"
proof -
  have "c \<in> fst ` set (error_map fmt m d dd)"
    using assms error_map_keys[of fmt m d dd] by (metis set_map)
  then have "map_of (error_map fmt m d dd) c \<noteq> None"
    by (simp add: map_of_eq_None_iff)
  then show ?thesis by blast
qed


lemma error_map_dispatch:
  assumes "c \<in> set (map fst taxonomy)"
  shows "(case map_of (error_map fmt m d dd) c of
            None \<Rightarrow> Inr (AgentTalkError_init code m s1 d) | Some produced \<Rightarrow> produced)
       = (case map_of (error_map fmt m d dd) c of
            None \<Rightarrow> Inr (AgentTalkError_init code m s2 d) | Some produced \<Rightarrow> produced)"
proof -
  from error_map_found[OF assms] obtain p where "map_of (error_map fmt m d dd) c = Some p"
    by blast
  then show ?thesis by simp
qed

subsection \<open>Every entry of error_map against the taxonomy\<close>

lemma entry_ok_Inr: "err_code e = JStr k \<Longrightarrow> err_status_code e = st \<Longrightarrow> entry_ok k st (Inr e)"
  by (simp add: entry_ok_def)

lemma entry_ok_get:
  "(\<And>v. entry_ok k st (f v)) \<Longrightarrow> entry_ok k st (py_bind (dict_get dd key d0) f)"
  by (cases dd) (simp_all add: py_bind_def entry_ok_def)

lemma error_map_entries:
  "list_all2 (\<lambda>kp ks. fst kp = fst ks \<and> entry_ok (fst ks) (snd ks) (snd kp))
     (error_map fmt m d dd) taxonomy"
  unfolding error_map_def taxonomy_def
  by (simp add: class_defs entry_ok_get entry_ok_Inr)

lemma list_all2_memD: "list_all2 P xs ys \<Longrightarrow> x \<in> set xs \<Longrightarrow> \<exists>y\<in>set ys. P x y"
  by (induction rule: list_all2_induct) auto

lemma taxonomy_distinct: "distinct (map fst taxonomy)"
  by (simp add: taxonomy_def)

lemma error_map_entry:
  assumes "map_of (error_map fmt m d dd) c = Some p"
  shows "\<exists>st. map_of taxonomy c = Some st \<and> entry_ok c st p"
proof -
  from map_of_SomeD[OF assms] have "(c, p) \<in> set (error_map fmt m d dd)" .
  from list_all2_memD[OF error_map_entries this]
  obtain ks where ks: "ks \<in> set taxonomy" "c = fst ks" "entry_ok (fst ks) (snd ks) p"
    by auto
  then have "(c, snd ks) \<in> set taxonomy" by simp
  then have "map_of taxonomy c = Some (snd ks)"
    using taxonomy_distinct by (rule map_of_is_SomeI[rotated])
  with ks show ?thesis by auto
qed

lemma error_map_entry_returns:
  assumes "map_of (error_map fmt m d dd) c = Some (Inr e)"
  shows "err_code e = JStr c \<and> map_of taxonomy c = Some (err_status_code e)"
  using error_map_entry[OF assms] by (auto simp: entry_ok_def)


lemma error_map_dict_entries:
  "list_all (\<lambda>kp. \<exists>e. snd kp = Inr e) (error_map fmt m d (JObj kvs))"
  unfolding error_map_def by (simp add: py_bind_def)

lemma error_map_entry_dict:
  assumes "map_of (error_map fmt m d (JObj kvs)) c = Some p"
  shows "\<exists>e. p = Inr e"
proof -
  from map_of_SomeD[OF assms] have "(c, p) \<in> set (error_map fmt m d (JObj kvs))" .
  with error_map_dict_entries[of fmt m d kvs] show ?thesis
    by (auto simp: list_all_iff)
qed

subsection \<open>What create_error_from_response raises and returns\<close>












text \<open>
  Where the details dictionary has only keys that \<^verbatim>\<open>ErrorDetails\<close> declares, the mapping
  returns: for a code of the taxonomy an error of that code with the declared status, and
  for any other code string the generic error with the code, message and status it was given.
\<close>

lemma details_accepted:
  assumes "list_all (\<lambda>k. k \<in> set ErrorDetails_fields) (map fst kvs)"
  shows "\<exists>details. (if truthy (JObj kvs)
            then py_bind (ErrorDetails_kwargs (JObj kvs)) (\<lambda>d. Inr (Some d)) else Inr None)
          = Inr details"
  using assms by (simp add: py_bind_def)

lemma recognized_code_returns:
  assumes "map_of taxonomy c = Some st"
    and "list_all (\<lambda>k. k \<in> set ErrorDetails_fields) (map fst kvs)"
  shows "\<exists>e. create_error_from_response fmt status (envelope (JStr c) message (JObj kvs)) = Inr e
            \<and> err_code e = JStr c \<and> err_status_code e = st"
proof -
  from map_of_SomeD[OF assms(1)] have "fst (c, st) \<in> fst ` set taxonomy" by (rule imageI)
  then have "c \<in> set (map fst taxonomy)" by simp
  from details_accepted[OF assms(2)] obtain details where
    d: "(if truthy (JObj kvs)
         then py_bind (ErrorDetails_kwargs (JObj kvs)) (\<lambda>d. Inr (Some d)) else Inr None)
        = Inr details" by blast
  from error_map_found[OF \<open>c \<in> set (map fst taxonomy)\<close>]
  obtain p where p: "map_of (error_map fmt message details (JObj kvs)) c = Some p" by blast
  from error_map_entry_dict[OF p] obtain e where e: "p = Inr e" by blast
  from error_map_entry_returns[OF p[unfolded e]] assms(1)
  have "err_code e = JStr c" "err_status_code e = st" by auto
  moreover have
    "create_error_from_response fmt status (envelope (JStr c) message (JObj kvs)) = Inr e"
    unfolding create_error_from_response_def envelope_def
    using p e by (simp add: py_bind_Inr d[simplified])
  ultimately show ?thesis by blast
qed

lemma unrecognized_code_returns:
  assumes "c \<notin> set (map fst taxonomy)"
    and "list_all (\<lambda>k. k \<in> set ErrorDetails_fields) (map fst kvs)"
  shows "\<exists>details. create_error_from_response fmt status (envelope (JStr c) message (JObj kvs))
            = Inr (AgentTalkError_init (JStr c) message status details)
          \<and> (if kvs = [] then details = None
              else map_option Inr details = Some (ErrorDetails_kwargs (JObj kvs)))"
proof -
  have n: "map_of (error_map fmt message details dd) c = None" for details dd
    using assms(1) error_map_keys[of fmt message details dd]
    by (metis map_of_eq_None_iff set_map)
  show ?thesis
    using assms(2) by (auto simp: create_error_from_response_def envelope_def py_bind_def n)
qed

lemma fallback_depends_on_status:
  "create_error_from_response fmt 400 (envelope (JStr ''TOTALLY_UNKNOWN'') (JStr ''m'') (JObj []))
     \<noteq> create_error_from_response fmt 500
          (envelope (JStr ''TOTALLY_UNKNOWN'') (JStr ''m'') (JObj []))"
  by (simp add: create_error_from_response_def envelope_def py_bind_def error_map_def
      AgentTalkError_init_def)

subsection \<open>The response mappers\<close>

lemma memo_first_unreadable:
  "first_unreadable r memo_required =
     (case Memo_from_response r of Inl ex \<Rightarrow> Some ex | Inr m \<Rightarrow> None)"
  by (simp add: memo_required_def Memo_from_response_def subscript_unreadable
      subscript2_unreadable py_bind_def split: sum.splits)

lemma health_first_unreadable:
  "first_unreadable r health_required =
     (case HealthResponse_from_response r of Inl ex \<Rightarrow> Some ex | Inr h \<Rightarrow> None)"
  by (simp add: health_required_def HealthResponse_from_response_def subscript_unreadable
      py_bind_def split: sum.splits)

subsection \<open>The transport\<close>



lemma urlerror_service_unavailable:
  assumes "urlopen (build_request jd self verb path body auth) (hc_timeout self) = URLError reason"
  shows "snd (HttpClient_request jl jd fmt urlopen self verb path body auth)
           = Inl (Raised (AgentTalkError_init (JStr ''SERVICE_UNAVAILABLE'')
                   (JStr (''Network error: Unable to connect to Agent Talk API: '' @ reason))
                   503 None))"
  using assms by (simp add: HttpClient_request_def Let_def)

lemma timeout_service_unavailable:
  assumes "urlopen (build_request jd self verb path body auth) (hc_timeout self) = TimeoutError"
  shows "snd (HttpClient_request jl jd fmt urlopen self verb path body auth)
           = Inl (Raised (AgentTalkError_init (JStr ''SERVICE_UNAVAILABLE'')
                   (JStr ''Request timeout'') 408 None))"
  using assms by (simp add: HttpClient_request_def Let_def)

lemma request_sends_once:
  "fst (HttpClient_request jl jd fmt urlopen self method path body auth)
     = [build_request jd self method path body auth]"
  by (simp add: HttpClient_request_def Let_def)

lemma create_sends_once:
  "fst (MemoApi_create jl jd fmt urlopen client text voice)
     = [build_request jd client ''POST'' ''/api/v1/memo''
          (Some (JObj [(''text'', JStr text), (''voice'', JStr voice)])) True]"
  by (simp add: MemoApi_create_def HttpClient_post_def HttpClient_request_def Let_def
      split: prod.splits sum.splits)

section \<open>The claims\<close>

text \<open>
  C1. For every wire code of the taxonomy, \<^verbatim>\<open>create_error_from_response\<close> is to return an
  error of that code with the declared default status. On the input of the repository's own
  test \<^verbatim>\<open>test_create_error_from_response\<close> (code \<^verbatim>\<open>INVALID_VOICE\<close>, details with the keys
  \<^verbatim>\<open>requestedVoice\<close> and \<^verbatim>\<open>availableVoices\<close>) no error instance is returned: the keyword
  construction of \<^verbatim>\<open>ErrorDetails\<close> raises \<^verbatim>\<open>TypeError\<close> before the code is looked up.
  Lemma \<open>recognized_code_returns\<close> above gives the claimed code and status for every details
  dictionary whose keys are fields of \<^verbatim>\<open>ErrorDetails\<close>.
\<close>

theorem C1_repo_test_input_raises:
  "create_error_from_response fmt 400
     (envelope (JStr ''INVALID_VOICE'') (JStr ''Invalid voice: invalid'')
        (JObj [(''requestedVoice'', JStr ''invalid''),
               (''availableVoices'', JList [JStr ''rachel'', JStr ''domi'', JStr ''adam''])]))
   = Inl TypeError"
  by (simp add: create_error_from_response_def envelope_def py_bind_def ErrorDetails_fields_def)

text \<open>
  C2. A code string outside the taxonomy is to give the generic error with the original
  code, message, status and details, and the mapping is never to raise, whatever keys the
  details hold. With a details key that \<^verbatim>\<open>ErrorDetails\<close> does not declare the mapping raises
  \<^verbatim>\<open>TypeError\<close> instead of returning the generic error.
\<close>

theorem C2_unknown_detail_key_raises:
  "create_error_from_response fmt 500
     (envelope (JStr ''TOTALLY_UNKNOWN'') (JStr ''boom'') (JObj [(''requestId'', JStr ''r-1'')]))
   = Inl TypeError"
  by (simp add: create_error_from_response_def envelope_def py_bind_def ErrorDetails_fields_def)

text \<open>
  C3. \<^verbatim>\<open>memo.create\<close> on a client without an API key is to fail with \<^verbatim>\<open>MISSING_API_KEY\<close>
  before any request is made. The code makes no such check: the transport receives one
  \<^verbatim>\<open>POST /api/v1/memo\<close> without an \<^verbatim>\<open>Authorization\<close> header, and when the server answers
  with a memo the call returns it.
\<close>

theorem C3_create_without_api_key_sends_request:
  "MemoApi_create (stub_loads memo_response_example) stub_dumps stub_fmt
     (stub_urlopen (Response ''body'')) (AgentTalk_init None None None) ''hi'' ''rachel''
   = ([\<lparr>rq_url = ''https://talk.onhyper.io/api/v1/memo'', rq_data = Some ''{}'',
        rq_headers = [(''Content-Type'', ''application/json''), (''Accept'', ''application/json'')],
        rq_method = ''POST''\<rparr>],
      Inr \<lparr>memo_id = JStr ''m1'', memo_text = JStr ''hi'',
           memo_voice = \<lparr>mv_id = JStr ''rachel'', mv_name = JStr ''Rachel'',
                          mv_gender = JStr ''female'', mv_description = JStr ''Calm''\<rparr>,
           memo_audio = \<lparr>ma_url = JStr ''https://x/a.mp3'', ma_duration = JFloat (3 / 2),
                          ma_format = JStr ''mp3''\<rparr>,
           memo_created_at = JStr ''2024-01-01T00:00:00Z''\<rparr>)"
  by (simp add: MemoApi_create_def HttpClient_post_def HttpClient_request_def Let_def
      build_request_def AgentTalk_init_def HttpClient_init_def DEFAULT_BASE_URL_def stub_defs
      Memo_from_response_def memo_response_example_def subscript2_def py_bind_def)




text \<open>
  C5. For a code of the taxonomy the mapping is never to fail, whatever details the server
  sends. With a details key that \<^verbatim>\<open>ErrorDetails\<close> does not declare (here \<^verbatim>\<open>resetAt\<close>) the
  mapping of \<^verbatim>\<open>DAILY_LIMIT_EXCEEDED\<close> raises \<^verbatim>\<open>TypeError\<close>.
\<close>

theorem C5_recognized_code_raises:
  "create_error_from_response fmt 429
     (envelope (JStr ''DAILY_LIMIT_EXCEEDED'') (JStr ''Daily rate limit exceeded'')
        (JObj [(''limit'', JInt 100), (''used'', JInt 100),
               (''resetAt'', JStr ''2024-01-02T00:00:00Z'')]))
   = Inl TypeError"
  by (simp add: create_error_from_response_def envelope_def py_bind_def ErrorDetails_fields_def)

text \<open>
  C6. The error mapped from \<^verbatim>\<open>MEMO_NOT_FOUND\<close> is to carry the \<^verbatim>\<open>memo_id\<close> of the details.
  The mapper reads the key \<^verbatim>\<open>field\<close> instead, so the supplied \<^verbatim>\<open>memo_id\<close> is dropped and
  the error carries the empty string.
\<close>

theorem C6_memo_id_dropped:
  "create_error_from_response fmt 404
     (envelope (JStr ''MEMO_NOT_FOUND'') (JStr ''Memo not found'')
        (JObj [(''memo_id'', JStr ''m42'')]))
   = Inr (MemoNotFoundError (JStr ''''))
   \<and> map_option ed_memo_id (err_details (MemoNotFoundError (JStr ''''))) = Some (JStr '''')"
  by (simp add: create_error_from_response_def envelope_def py_bind_def ErrorDetails_fields_def
      error_map_def MemoNotFoundError_def AgentTalkError_init_def ErrorDetails_none_def)

text \<open>
  C7, as stated, fails: a successful response with an empty body becomes the empty
  dictionary, and mapping it to a memo raises the built-in \<^verbatim>\<open>KeyError\<close> for \<^verbatim>\<open>id\<close>, which
  is not an error of the SDK's type.
\<close>

theorem C7_missing_field_counterexample:
  "memo_field_absent (JObj [])
   \<and> snd (MemoApi_create stub_no_json stub_dumps stub_fmt (stub_urlopen (Response ''''))
            (AgentTalk_init (Some ''at_live_test123'') None None) ''hi'' ''rachel'')
     = Inl (KeyError ''id'')"
  by (simp add: memo_field_absent_def memo_required_def MemoApi_create_def HttpClient_post_def
      HttpClient_request_def Let_def stub_defs Memo_from_response_def py_bind_def)

text \<open>
  C7, amended. For every successful response body in which a required field is absent, the
  mapping to a memo and the mapping to a health response raise a built-in exception of
  Python and no error of the SDK's type: the exception of the first required field, in the
  order in which the mapper reads them, that cannot be read. This is the \<^verbatim>\<open>KeyError\<close> that
  names the absent key where the enclosing dictionary lacks it, and a \<^verbatim>\<open>TypeError\<close> where
  the enclosing value (the body, \<^verbatim>\<open>voice\<close> or \<^verbatim>\<open>audio\<close>) is no dictionary. The mappers never
  return an object with a substitute for the absent field.
\<close>

theorem C7_missing_field_raises_lookup_error:
  "(memo_field_absent r \<longrightarrow>
      (\<exists>ex. first_unreadable r memo_required = Some ex \<and> Memo_from_response r = Inl ex \<and>
            lookup_error ex)) \<and>
   (health_field_absent r \<longrightarrow>
      (\<exists>ex. first_unreadable r health_required = Some ex \<and>
            HealthResponse_from_response r = Inl ex \<and> lookup_error ex))"
proof (intro conjI impI)
  assume "memo_field_absent r"
  then obtain ex where ex: "first_unreadable r memo_required = Some ex"
    unfolding memo_field_absent_def by (blast dest: absent_first_unreadable)
  then have "Memo_from_response r = Inl ex"
    by (simp add: memo_first_unreadable split: sum.splits)
  with ex first_unreadable_lookup_error[OF ex]
  show "\<exists>ex. first_unreadable r memo_required = Some ex \<and> Memo_from_response r = Inl ex \<and>
             lookup_error ex"
    by blast
next
  assume "health_field_absent r"
  then obtain ex where ex: "first_unreadable r health_required = Some ex"
    unfolding health_field_absent_def by (blast dest: absent_first_unreadable)
  then have "HealthResponse_from_response r = Inl ex"
    by (simp add: health_first_unreadable split: sum.splits)
  with ex first_unreadable_lookup_error[OF ex]
  show "\<exists>ex. first_unreadable r health_required = Some ex \<and>
             HealthResponse_from_response r = Inl ex \<and> lookup_error ex"
    by blast
qed

text \<open>
  The amended C7 at a body whose \<^verbatim>\<open>voice\<close> is \<^verbatim>\<open>null\<close> and that has no \<^verbatim>\<open>status\<close>: the memo
  mapping raises \<^verbatim>\<open>TypeError\<close> at \<^verbatim>\<open>voice.id\<close>, the health mapping raises the \<^verbatim>\<open>KeyError\<close>
  that names \<^verbatim>\<open>status\<close>.
\<close>

theorem C7_missing_field_raises_lookup_error_witness:
  "memo_field_absent (JObj [(''id'', JStr ''m1''), (''text'', JStr ''hi''), (''voice'', JNull)])
   \<and> health_field_absent
        (JObj [(''id'', JStr ''m1''), (''text'', JStr ''hi''), (''voice'', JNull)])
   \<and> Memo_from_response (JObj [(''id'', JStr ''m1''), (''text'', JStr ''hi''), (''voice'', JNull)])
       = Inl TypeError
   \<and> HealthResponse_from_response
        (JObj [(''id'', JStr ''m1''), (''text'', JStr ''hi''), (''voice'', JNull)])
       = Inl (KeyError ''status'')"
proof -
  let ?r = "JObj [(''id'', JStr ''m1''), (''text'', JStr ''hi''), (''voice'', JNull)]"
  have m: "memo_field_absent ?r"
    by (simp add: memo_field_absent_def memo_required_def)
  have h: "health_field_absent ?r"
    by (simp add: health_field_absent_def health_required_def)
  have fm: "first_unreadable ?r memo_required = Some TypeError"
    by (simp add: memo_required_def)
  have fh: "first_unreadable ?r health_required = Some (KeyError ''status'')"
    by (simp add: health_required_def)
  from C7_missing_field_raises_lookup_error[of ?r] m h fm fh
  have "Memo_from_response ?r = Inl TypeError"
    and "HealthResponse_from_response ?r = Inl (KeyError ''status'')"
    by auto
  with m h show ?thesis by simp
qed

text \<open>
  C8. Every network-level failure is to raise an error of code \<^verbatim>\<open>SERVICE_UNAVAILABLE\<close>,
  whatever the underlying error. \<^verbatim>\<open>_request\<close> does so for \<^verbatim>\<open>URLError\<close> and for
  \<^verbatim>\<open>TimeoutError\<close> (lemmas \<open>urlerror_service_unavailable\<close> and
  \<open>timeout_service_unavailable\<close> above) and has no handler for the network failures that
  \<^verbatim>\<open>urllib\<close> raises unwrapped: when the server closes the connection without an answer,
  \<^verbatim>\<open>http.client.RemoteDisconnected\<close> leaves the call as it is, and no
  \<^verbatim>\<open>AgentTalkError\<close> is raised.
\<close>

theorem C8_connection_closed_escapes:
  "snd (HttpClient_request stub_no_json stub_dumps stub_fmt
          (stub_urlopen (OtherException ''RemoteDisconnected''))
          (HttpClient_init None) ''GET'' ''/health'' None False)
   = Inl (Propagated ''RemoteDisconnected'')"
  by (simp add: HttpClient_request_def Let_def stub_defs)

text \<open>
  C9. When the server answers \<^verbatim>\<open>memo.create\<close> with the response of section 8 of the
  specification, the call returns a memo with exactly those values, the wire field
  \<^verbatim>\<open>createdAt\<close> being the field \<^verbatim>\<open>created_at\<close>.
\<close>

theorem C9_memo_example_mapped:
  assumes "urlopen (build_request jd client ''POST'' ''/api/v1/memo''
              (Some (JObj [(''text'', JStr text_arg), (''voice'', JStr voice_arg)])) True)
              (hc_timeout client) = Response body"
    and "body \<noteq> []" and "jl body = Some memo_response_example"
  shows "snd (MemoApi_create jl jd fmt urlopen client text_arg voice_arg) =
     Inr \<lparr>memo_id = JStr ''m1'', memo_text = JStr ''hi'',
          memo_voice = \<lparr>mv_id = JStr ''rachel'', mv_name = JStr ''Rachel'',
                         mv_gender = JStr ''female'', mv_description = JStr ''Calm''\<rparr>,
          memo_audio = \<lparr>ma_url = JStr ''https://x/a.mp3'', ma_duration = JFloat (3 / 2),
                         ma_format = JStr ''mp3''\<rparr>,
          memo_created_at = JStr ''2024-01-01T00:00:00Z''\<rparr>"
  using assms
  by (simp add: MemoApi_create_def HttpClient_post_def HttpClient_request_def Let_def
      Memo_from_response_def memo_response_example_def subscript2_def py_bind_def)

text \<open>C9 on a client with an API key and a transport that answers with that response.\<close>

theorem C9_memo_example_mapped_witness:
  "stub_urlopen (Response ''body'')
     (build_request stub_dumps (AgentTalk_init (Some ''at_live_test123'') None None) ''POST''
        ''/api/v1/memo'' (Some (JObj [(''text'', JStr ''hi''), (''voice'', JStr ''rachel'')])) True)
     (hc_timeout (AgentTalk_init (Some ''at_live_test123'') None None)) = Response ''body''
   \<and> ''body'' \<noteq> []
   \<and> stub_loads memo_response_example ''body'' = Some memo_response_example
   \<and> snd (MemoApi_create (stub_loads memo_response_example) stub_dumps stub_fmt
            (stub_urlopen (Response ''body''))
            (AgentTalk_init (Some ''at_live_test123'') None None) ''hi'' ''rachel'') =
     Inr \<lparr>memo_id = JStr ''m1'', memo_text = JStr ''hi'',
          memo_voice = \<lparr>mv_id = JStr ''rachel'', mv_name = JStr ''Rachel'',
                         mv_gender = JStr ''female'', mv_description = JStr ''Calm''\<rparr>,
          memo_audio = \<lparr>ma_url = JStr ''https://x/a.mp3'', ma_duration = JFloat (3 / 2),
                         ma_format = JStr ''mp3''\<rparr>,
          memo_created_at = JStr ''2024-01-01T00:00:00Z''\<rparr>"
proof -
  have 1: "stub_urlopen (Response ''body'')
     (build_request stub_dumps (AgentTalk_init (Some ''at_live_test123'') None None) ''POST''
        ''/api/v1/memo'' (Some (JObj [(''text'', JStr ''hi''), (''voice'', JStr ''rachel'')])) True)
     (hc_timeout (AgentTalk_init (Some ''at_live_test123'') None None)) = Response ''body''"
    by (simp add: stub_urlopen_def)
  have 2: "''body'' \<noteq> []" by simp
  have 3: "stub_loads memo_response_example ''body'' = Some memo_response_example"
    by (simp add: stub_loads_def)
  from C9_memo_example_mapped[where urlopen = "stub_urlopen (Response ''body'')"
      and jd = stub_dumps and client = "AgentTalk_init (Some ''at_live_test123'') None None"
      and text_arg = "''hi''" and voice_arg = "''rachel''" and body = "''body''"
      and jl = "stub_loads memo_response_example" and fmt = stub_fmt] 1 2 3
  show ?thesis by simp
qed

text \<open>
  C10. For a response whose code is a code of the taxonomy, the outcome of
  \<^verbatim>\<open>create_error_from_response\<close> (the error returned, or the exception raised) is the same
  for any two status codes: the status argument reaches the result only on the fallback
  path of an unrecognized code.
\<close>

theorem C10_status_code_independence:
  assumes "response_code r = Inr (JStr c)" and "c \<in> set (map fst taxonomy)"
  shows "create_error_from_response fmt s1 r = create_error_from_response fmt s2 r"
proof -
  from assms(1) obtain ed where 1: "dict_get r ''error'' (JObj []) = Inr ed"
    and 2: "dict_get ed ''code'' (JStr ''INTERNAL_ERROR'') = Inr (JStr c)"
    by (auto simp: response_code_def dest!: py_bind_InrD)
  show ?thesis
    unfolding create_error_from_response_def
    by (simp add: 1 2 py_bind_Inr) (intro py_bind_cong error_map_dispatch[OF assms(2)])
qed

text \<open>
  C10 at a \<^verbatim>\<open>FORBIDDEN\<close> response mapped under the statuses 403 and 500: both calls return
  the same \<^verbatim>\<open>ForbiddenError\<close>.
\<close>

theorem C10_status_code_independence_witness:
  "response_code (envelope (JStr ''FORBIDDEN'') (JStr ''no'') (JObj [])) = Inr (JStr ''FORBIDDEN'')
   \<and> ''FORBIDDEN'' \<in> set (map fst taxonomy)
   \<and> create_error_from_response stub_fmt 403 (envelope (JStr ''FORBIDDEN'') (JStr ''no'') (JObj []))
      = create_error_from_response stub_fmt 500
          (envelope (JStr ''FORBIDDEN'') (JStr ''no'') (JObj []))
   \<and> create_error_from_response stub_fmt 500 (envelope (JStr ''FORBIDDEN'') (JStr ''no'') (JObj []))
      = Inr (ForbiddenError (JStr ''no''))"
proof -
  have 1: "response_code (envelope (JStr ''FORBIDDEN'') (JStr ''no'') (JObj []))
             = Inr (JStr ''FORBIDDEN'')"
    by (simp add: response_code_def envelope_def py_bind_def)
  have 2: "''FORBIDDEN'' \<in> set (map fst taxonomy)"
    by (simp add: taxonomy_def)
  have 3: "create_error_from_response stub_fmt 500
             (envelope (JStr ''FORBIDDEN'') (JStr ''no'') (JObj []))
           = Inr (ForbiddenError (JStr ''no''))"
    by (simp add: create_error_from_response_def envelope_def py_bind_def error_map_def)
  from C10_status_code_independence[OF 1 2, of stub_fmt 403 500] 1 2 3 show ?thesis by simp
qed

end
